theory Spec2Isabelle
  imports Main
begin

unbundle bit_operations_syntax

section \<open>picolog: a levelled logger over Go's log package\<close>

text \<open>
  The package exists in two copies: \<^verbatim>\<open>src/unnamed/part_000\<close> (the later one, with its own
  \<^verbatim>\<open>LogLevel\<close> type, \<^verbatim>\<open>String\<close>, \<^verbatim>\<open>Emergf\<close>, \<^verbatim>\<open>Alertf\<close> and \<^verbatim>\<open>Noticef\<close>) and
  \<^verbatim>\<open>src/picolog.go\<close> (the earlier one, on \<^verbatim>\<open>syslog.Priority\<close>). The embedding follows
  \<^verbatim>\<open>part_000\<close>; the functions of \<^verbatim>\<open>picolog.go\<close> that are compared with it carry the
  suffix \<open>_v0\<close>.
\<close>

subsection \<open>Levels\<close>

text \<open>
  \<^verbatim>\<open>type LogLevel syslog.Priority\<close>, and \<^verbatim>\<open>syslog.Priority\<close> is Go's \<^verbatim>\<open>int\<close>. The package only
  compares levels, so the machine width plays no role and the type is \<open>int\<close>.
\<close>

type_synonym LogLevel = int

text \<open>
  Modelled from the spec: the constants \<^verbatim>\<open>syslog.LOG_EMERG\<close> .. \<^verbatim>\<open>syslog.LOG_DEBUG\<close> belong to
  Go's standard package \<^verbatim>\<open>log/syslog\<close>, which is not part of the repository. The spec orders
  them EMERG < ALERT < CRIT < ERR < WARNING < NOTICE < INFO < DEBUG; the standard package
  declares them with \<^verbatim>\<open>iota\<close> in that order, from 0 to 7.
\<close>

definition LOG_EMERG :: int where "LOG_EMERG = 0"
definition LOG_ALERT :: int where "LOG_ALERT = 1"
definition LOG_CRIT :: int where "LOG_CRIT = 2"
definition LOG_ERR :: int where "LOG_ERR = 3"
definition LOG_WARNING :: int where "LOG_WARNING = 4"
definition LOG_NOTICE :: int where "LOG_NOTICE = 5"
definition LOG_INFO :: int where "LOG_INFO = 6"
definition LOG_DEBUG :: int where "LOG_DEBUG = 7"

text \<open>The \<^verbatim>\<open>const\<close> block of \<^verbatim>\<open>part_000\<close>, lines 34 to 43.\<close>

definition LogDebug :: LogLevel where "LogDebug = LOG_DEBUG"
definition LogInfo :: LogLevel where "LogInfo = LOG_INFO"
definition LogNotice :: LogLevel where "LogNotice = LOG_NOTICE"
definition LogWarning :: LogLevel where "LogWarning = LOG_WARNING"
definition LogErr :: LogLevel where "LogErr = LOG_ERR"
definition LogCrit :: LogLevel where "LogCrit = LOG_CRIT"
definition LogAlert :: LogLevel where "LogAlert = LOG_ALERT"
definition LogEmerg :: LogLevel where "LogEmerg = LOG_EMERG"

subsection \<open>Strings and case\<close>

text \<open>
  A Go string is a sequence of bytes, here a \<open>string\<close>. \<^verbatim>\<open>strings.ToLower\<close> and
  \<^verbatim>\<open>strings.ToUpper\<close> shift the ASCII letters of a string that has only ASCII bytes; on any
  other string they map \<^verbatim>\<open>unicode.ToLower\<close> (\<^verbatim>\<open>unicode.ToUpper\<close>) over its runes. The Unicode
  tables are not in the repository: the mapping of a string with a byte above 127 is the
  parameter \<open>uni\<close>.
\<close>

definition isASCII :: "string \<Rightarrow> bool" where
  "isASCII s = list_all (\<lambda>c. (of_char c :: nat) < 128) s"

definition lowerASCII :: "char \<Rightarrow> char" where
  "lowerASCII c =
     (if of_char CHR ''A'' \<le> (of_char c :: nat) \<and> (of_char c :: nat) \<le> of_char CHR ''Z''
      then char_of ((of_char c :: nat) + (of_char CHR ''a'' - of_char CHR ''A''))
      else c)"

definition upperASCII :: "char \<Rightarrow> char" where
  "upperASCII c =
     (if of_char CHR ''a'' \<le> (of_char c :: nat) \<and> (of_char c :: nat) \<le> of_char CHR ''z''
      then char_of ((of_char c :: nat) - (of_char CHR ''a'' - of_char CHR ''A''))
      else c)"

definition ToLower :: "(string \<Rightarrow> string) \<Rightarrow> string \<Rightarrow> string" where
  "ToLower uni s = (if isASCII s then map lowerASCII s else uni s)"

definition ToUpper :: "(string \<Rightarrow> string) \<Rightarrow> string \<Rightarrow> string" where
  "ToUpper uni s = (if isASCII s then map upperASCII s else uni s)"

subsection \<open>Errors\<close>

text \<open>
  \<open>fmt_Errorf\<close> carries the text of a \<^verbatim>\<open>fmt.Errorf\<close>; the other three are the errors that
  \<^verbatim>\<open>os.File.Write\<close> and \<^verbatim>\<open>bufio.Writer\<close> produce in the model of the destination below.
\<close>

datatype error = fmt_Errorf string | ErrInvalid | ErrClosed | ErrShortWrite

subsection \<open>Parsing and printing levels\<close>

text \<open>
  \<^verbatim>\<open>ParseLogLevel\<close> returns a pair in Go, the level and the error; on failure the level is
  \<^verbatim>\<open>LogLevel(syslog.Priority(0))\<close> and the error is not nil.
\<close>

definition ParseLogLevel :: "(string \<Rightarrow> string) \<Rightarrow> string \<Rightarrow> LogLevel \<times> error option" where
  "ParseLogLevel uni level0 =
     (let level = ToLower uni level0 in
      if level = ''emerg'' then (LOG_EMERG, None)
      else if level = ''alert'' then (LOG_ALERT, None)
      else if level = ''crit'' then (LOG_CRIT, None)
      else if level = ''err'' then (LOG_ERR, None)
      else if level = ''warning'' then (LOG_WARNING, None)
      else if level = ''notice'' then (LOG_NOTICE, None)
      else if level = ''info'' then (LOG_INFO, None)
      else if level = ''debug'' then (LOG_DEBUG, None)
      else (0, Some (fmt_Errorf (''Invalid log level: '' @ level))))"

text \<open>The same function in \<^verbatim>\<open>picolog.go\<close>, lines 25 to 46, returning a \<^verbatim>\<open>syslog.Priority\<close>.\<close>

definition ParseLogLevel_v0 :: "(string \<Rightarrow> string) \<Rightarrow> string \<Rightarrow> int \<times> error option" where
  "ParseLogLevel_v0 uni level0 =
     (let level = ToLower uni level0 in
      if level = ''emerg'' then (LOG_EMERG, None)
      else if level = ''alert'' then (LOG_ALERT, None)
      else if level = ''crit'' then (LOG_CRIT, None)
      else if level = ''err'' then (LOG_ERR, None)
      else if level = ''warning'' then (LOG_WARNING, None)
      else if level = ''notice'' then (LOG_NOTICE, None)
      else if level = ''info'' then (LOG_INFO, None)
      else if level = ''debug'' then (LOG_DEBUG, None)
      else (0, Some (fmt_Errorf (''Invalid log level: '' @ level))))"

text \<open>\<^verbatim>\<open>func (l LogLevel) String() string\<close>.\<close>

definition LogLevel_String :: "LogLevel \<Rightarrow> string" where
  "LogLevel_String l =
     (if l = LOG_EMERG then ''emerg''
      else if l = LOG_ALERT then ''alert''
      else if l = LOG_CRIT then ''crit''
      else if l = LOG_ERR then ''err''
      else if l = LOG_WARNING then ''warning''
      else if l = LOG_NOTICE then ''notice''
      else if l = LOG_INFO then ''info''
      else if l = LOG_DEBUG then ''debug''
      else ''invalid log level'')"

text \<open>The eight levels and their names, in the order of the spec.\<close>

definition all_levels :: "LogLevel list" where
  "all_levels = [LogEmerg, LogAlert, LogCrit, LogErr, LogWarning, LogNotice, LogInfo, LogDebug]"

definition level_names :: "string list" where
  "level_names =
     [''emerg'', ''alert'', ''crit'', ''err'', ''warning'', ''notice'', ''info'', ''debug'']"

text \<open>
  Two strings are equal up to case when \<^verbatim>\<open>strings.ToLower\<close> sends them to the same string.
\<close>

definition equal_ignoring_case :: "(string \<Rightarrow> string) \<Rightarrow> string \<Rightarrow> string \<Rightarrow> bool" where
  "equal_ignoring_case uni s t = (ToLower uni s = ToLower uni t)"

definition is_level_name :: "(string \<Rightarrow> string) \<Rightarrow> string \<Rightarrow> bool" where
  "is_level_name uni s = list_ex (equal_ignoring_case uni s) level_names"

subsection \<open>The destination: files, buffered writers and Go's log package\<close>

text \<open>
  Pointers are addresses into the tables of the store below; \<open>None\<close> is \<^verbatim>\<open>nil\<close>. Go has no
  dangling pointers, so an address outside its table is treated like \<^verbatim>\<open>nil\<close>.
\<close>

type_synonym ptr = "nat option"

definition deref :: "'a list \<Rightarrow> ptr \<Rightarrow> 'a option" where
  "deref xs p = (case p of None \<Rightarrow> None | Some i \<Rightarrow> if i < length xs then Some (xs ! i) else None)"

text \<open>
  An \<^verbatim>\<open>os.File\<close>: the bytes written so far and whether it has been closed. \<^verbatim>\<open>Write\<close> on a
  \<^verbatim>\<open>nil\<close> file returns \<^verbatim>\<open>os.ErrInvalid\<close>, on a closed file \<^verbatim>\<open>os.ErrClosed\<close>; on an open file it
  appends all of \<open>p\<close>. The result is the pair \<^verbatim>\<open>(n, err)\<close> and the new file table.
\<close>

record os_File =
  data :: string
  isClosed :: bool

definition File_Write :: "os_File list \<Rightarrow> ptr \<Rightarrow> string \<Rightarrow> (nat \<times> error option) \<times> os_File list" where
  "File_Write fs f p =
     (case f of
        None \<Rightarrow> ((0, Some ErrInvalid), fs)
      | Some i \<Rightarrow>
          if i < length fs \<and> \<not> isClosed (fs ! i)
          then ((length p, None), fs[i := (fs ! i)\<lparr>data := data (fs ! i) @ p\<rparr>])
          else ((0, Some ErrClosed), fs))"

text \<open>
  A \<^verbatim>\<open>bufio.Writer\<close> of the default size: its sticky error, the buffered bytes
  \<^verbatim>\<open>b.buf[0:b.n]\<close> and the file under it.
\<close>

record bufio_Writer =
  err :: "error option"
  buf :: string
  wr :: ptr

definition defaultBufSize :: nat where
  "defaultBufSize = 4096"

definition NewWriter :: "ptr \<Rightarrow> bufio_Writer" where
  "NewWriter f = \<lparr>err = None, buf = [], wr = f\<rparr>"

definition Available :: "bufio_Writer \<Rightarrow> nat" where
  "Available b = defaultBufSize - length (buf b)"

definition bufio_Flush :: "bufio_Writer \<Rightarrow> os_File list \<Rightarrow> bufio_Writer \<times> os_File list" where
  "bufio_Flush b fs =
     (if err b \<noteq> None then (b, fs)
      else if buf b = [] then (b, fs)
      else
        (case File_Write fs (wr b) (buf b) of
           ((n, e), fs') \<Rightarrow>
             (let e' = (if n < length (buf b) \<and> e = None then Some ErrShortWrite else e) in
              if e' \<noteq> None then (b\<lparr>buf := drop n (buf b), err := e'\<rparr>, fs')
              else (b\<lparr>buf := []\<rparr>, fs'))))"

text \<open>
  \<^verbatim>\<open>bufio.Writer.Write\<close>: while \<open>p\<close> does not fit and no error is pending, an empty buffer lets
  \<open>p\<close> go straight to the file, and a buffer with bytes in it is filled up and flushed;
  what remains is copied into the buffer.
\<close>

function bufio_Write :: "bufio_Writer \<Rightarrow> os_File list \<Rightarrow> string \<Rightarrow> bufio_Writer \<times> os_File list" where
  "bufio_Write b fs p =
     (if Available b < length p \<and> err b = None then
        (if buf b = [] then
           bufio_Write (b\<lparr>err := snd (fst (File_Write fs (wr b) p))\<rparr>)
             (snd (File_Write fs (wr b) p))
             (drop (fst (fst (File_Write fs (wr b) p))) p)
         else
           bufio_Write (fst (bufio_Flush (b\<lparr>buf := buf b @ take (Available b) p\<rparr>) fs))
             (snd (bufio_Flush (b\<lparr>buf := buf b @ take (Available b) p\<rparr>) fs))
             (drop (Available b) p))
      else if err b \<noteq> None then (b, fs)
      else (b\<lparr>buf := buf b @ p\<rparr>, fs))"
  by pat_completeness auto

termination bufio_Write
  apply (relation "measures [\<lambda>(b, fs, p). if err b = None then 1 else 0,
                              \<lambda>(b, fs, p). length p,
                              \<lambda>(b, fs, p). length (buf b)]")
   apply simp
  apply (auto simp: File_Write_def bufio_Flush_def Available_def Let_def
              split: option.splits if_splits prod.splits)
  done

declare bufio_Write.simps [simp del]

text \<open>
  What \<^verbatim>\<open>time.Now()\<close> and \<^verbatim>\<open>runtime.Caller\<close> give to one call of \<^verbatim>\<open>log.Logger.Output\<close>: the
  calendar date and clock of the moment, and the source position of the caller.
\<close>

record Time =
  year :: nat
  month :: nat
  day :: nat
  hour :: nat
  minute :: nat
  second :: nat

record env =
  now :: Time
  callerFile :: string
  callerLine :: nat
  callerOk :: bool

text \<open>The flags of package \<^verbatim>\<open>log\<close>, declared there as \<^verbatim>\<open>1 << iota\<close>.\<close>

definition Ldate :: int where "Ldate = 1"
definition Ltime :: int where "Ltime = 2"
definition Lmicroseconds :: int where "Lmicroseconds = 4"
definition Llongfile :: int where "Llongfile = 8"
definition Lshortfile :: int where "Lshortfile = 16"

record log_Logger =
  lprefix :: string
  flag :: int
  out :: ptr

definition log_New :: "ptr \<Rightarrow> string \<Rightarrow> int \<Rightarrow> log_Logger" where
  "log_New out' prefix' flag' = \<lparr>lprefix = prefix', flag = flag', out = out'\<rparr>"

text \<open>
  \<^verbatim>\<open>itoa\<close> of package \<^verbatim>\<open>log\<close>: the decimal digits of \<open>i\<close>, padded with zeros to the width
  \<open>wid\<close>; a negative width pads nothing.
\<close>

definition digit :: "nat \<Rightarrow> char" where
  "digit d = char_of (of_char CHR ''0'' + d)"

function itoa :: "nat \<Rightarrow> int \<Rightarrow> string" where
  "itoa i wid =
     (if 10 \<le> i \<or> 1 < wid then itoa (i div 10) (wid - 1) @ [digit (i - (i div 10) * 10)]
      else [digit i])"
  by pat_completeness auto

termination itoa
  by (relation "measure (\<lambda>(i, wid). i + nat wid)") auto

declare itoa.simps [simp del]

text \<open>
  The loop of \<^verbatim>\<open>formatHeader\<close> for \<^verbatim>\<open>Lshortfile\<close>: \<open>i\<close> runs down from the last index while
  \<open>i > 0\<close>, and the first slash found cuts the path after it.
\<close>

fun short_from :: "string \<Rightarrow> nat \<Rightarrow> string" where
  "short_from file 0 = file"
| "short_from file (Suc i) =
     (if file ! Suc i = CHR ''/'' then drop (Suc i + 1) file else short_from file i)"

definition shortfile :: "string \<Rightarrow> string" where
  "shortfile file = short_from file (length file - 1)"

definition date_text :: "Time \<Rightarrow> string" where
  "date_text t = itoa (year t) 4 @ ''/'' @ itoa (month t) 2 @ ''/'' @ itoa (day t) 2"

definition clock_text :: "Time \<Rightarrow> string" where
  "clock_text t = itoa (hour t) 2 @ '':'' @ itoa (minute t) 2 @ '':'' @ itoa (second t) 2"

definition formatHeader :: "log_Logger \<Rightarrow> Time \<Rightarrow> string \<Rightarrow> nat \<Rightarrow> string" where
  "formatHeader lg t file line =
     lprefix lg
     @ (if flag lg AND Ldate \<noteq> 0 then date_text t @ '' '' else [])
     @ (if flag lg AND Ltime \<noteq> 0 then clock_text t @ '' '' else [])
     @ (if flag lg AND (Lshortfile OR Llongfile) \<noteq> 0
        then (if flag lg AND Lshortfile \<noteq> 0 then shortfile file else file)
             @ '':'' @ itoa line (- 1) @ '': ''
        else [])"

definition newline :: char where
  "newline = CHR 0x0A"

text \<open>The bytes that one call of \<^verbatim>\<open>Output\<close> hands to its writer.\<close>

definition output_line :: "env \<Rightarrow> log_Logger \<Rightarrow> string \<Rightarrow> string" where
  "output_line e lg s =
     (let file = (if flag lg AND (Lshortfile OR Llongfile) \<noteq> 0
                  then (if callerOk e then callerFile e else ''???'') else []);
          line = (if flag lg AND (Lshortfile OR Llongfile) \<noteq> 0
                  then (if callerOk e then callerLine e else 0) else 0)
      in formatHeader lg (now e) file line @ s
         @ (if s \<noteq> [] \<and> last s = newline then [] else [newline]))"

subsection \<open>The store\<close>

text \<open>
  The \<^verbatim>\<open>Logger\<close> struct. Its \<^verbatim>\<open>*log.Logger\<close> is referred to from nowhere else and is kept
  by value (\<open>None\<close> is \<^verbatim>\<open>nil\<close>); the \<^verbatim>\<open>*bufio.Writer\<close> is shared between the struct and its
  \<^verbatim>\<open>log.Logger\<close>, and the \<^verbatim>\<open>*os.File\<close> between a logger and its subloggers, so both are
  addresses into the store.
\<close>

record Logger =
  logLevel :: LogLevel
  logger :: "log_Logger option"
  writer :: ptr
  destStream :: ptr
  prefix :: string
  subloggers :: "ptr list"
  initialized :: bool

record world =
  files :: "os_File list"
  writers :: "bufio_Writer list"
  loggers :: "Logger list"
  Stderr :: ptr

text \<open>How a call ends: it returns, it panics, or the process exits with a status.\<close>

datatype outcome = Returns | Panics | Exits int

text \<open>
  \<^verbatim>\<open>log.Logger.Output\<close> on the store: a \<^verbatim>\<open>nil\<close> receiver panics, otherwise the line goes to the
  writer; the error that \<^verbatim>\<open>Write\<close> returns is returned and, in this package, dropped.
\<close>

definition log_Output :: "env \<Rightarrow> world \<Rightarrow> log_Logger option \<Rightarrow> string \<Rightarrow> outcome \<times> world" where
  "log_Output e w lg s =
     (case lg of
        None \<Rightarrow> (Panics, w)
      | Some g \<Rightarrow>
          (case out g of
             None \<Rightarrow> (Panics, w)
           | Some i \<Rightarrow>
               if i < length (writers w) then
                 (case bufio_Write (writers w ! i) (files w) (output_line e g s) of
                    (b', fs') \<Rightarrow> (Returns, w\<lparr>files := fs', writers := (writers w)[i := b']\<rparr>))
               else (Panics, w)))"

definition Writer_Flush :: "world \<Rightarrow> ptr \<Rightarrow> outcome \<times> world" where
  "Writer_Flush w p =
     (case p of
        None \<Rightarrow> (Panics, w)
      | Some i \<Rightarrow>
          if i < length (writers w) then
            (case bufio_Flush (writers w ! i) (files w) of
               (b', fs') \<Rightarrow> (Returns, w\<lparr>files := fs', writers := (writers w)[i := b']\<rparr>))
          else (Panics, w))"

subsection \<open>The package\<close>

text \<open>\<^verbatim>\<open>NewLogger\<close> allocates a writer and a logger; it returns the new address and the store.\<close>

definition NewLogger :: "world \<Rightarrow> LogLevel \<Rightarrow> string \<Rightarrow> ptr \<Rightarrow> ptr \<times> world" where
  "NewLogger w logLevel' subpackage dest =
     (let flags = Ldate OR Ltime;
          flags = (if logLevel' = LOG_DEBUG then flags OR Lshortfile else flags);
          renderedPrefix = ''['' @ subpackage @ ''] '';
          wp = Some (length (writers w));
          l = \<lparr>logLevel = logLevel',
               logger = Some (log_New wp renderedPrefix flags),
               writer = wp,
               destStream = dest,
               prefix = subpackage,
               subloggers = [],
               initialized = True\<rparr>
      in (Some (length (loggers w)),
          w\<lparr>writers := writers w @ [NewWriter dest], loggers := loggers w @ [l]\<rparr>))"

definition NewDefaultLogger :: "world \<Rightarrow> ptr \<times> world" where
  "NewDefaultLogger w = NewLogger w LogDebug ''default'' (Stderr w)"

text \<open>
  \<^verbatim>\<open>initializeDefaultLogger\<close> assigns the default logger to its receiver variable \<^verbatim>\<open>l\<close>, a
  copy of the caller's pointer: the allocation stays in the store, the binding is lost.
\<close>

definition initializeDefaultLogger :: "world \<Rightarrow> ptr \<Rightarrow> world" where
  "initializeDefaultLogger w l =
     (case NewDefaultLogger w of
        (defaultLogger, w') \<Rightarrow> (let l = defaultLogger in w'))"

definition ensureInitialized :: "world \<Rightarrow> ptr \<Rightarrow> outcome \<times> world" where
  "ensureInitialized w l =
     (case deref (loggers w) l of
        None \<Rightarrow> (Panics, w)
      | Some L \<Rightarrow>
          if \<not> initialized L then (Returns, initializeDefaultLogger w l) else (Returns, w))"

definition NewSubLogger :: "world \<Rightarrow> ptr \<Rightarrow> string \<Rightarrow> outcome \<times> ptr \<times> world" where
  "NewSubLogger w l prefix' =
     (case l of
        None \<Rightarrow> (Panics, None, w)
      | Some i \<Rightarrow>
          if i < length (loggers w) then
            (let subPrefix = prefix (loggers w ! i) @ '']['' @ prefix' in
             case NewLogger w (logLevel (loggers w ! i)) subPrefix (destStream (loggers w ! i)) of
               (sub, w1) \<Rightarrow>
                 (Returns, sub,
                  w1\<lparr>loggers := (loggers w1)
                        [i := (loggers w1 ! i)\<lparr>subloggers := subloggers (loggers w1 ! i) @ [sub]\<rparr>]\<rparr>))
          else (Panics, None, w))"

text \<open>
  \<^verbatim>\<open>Printf\<close>. The argument \<open>msg\<close> is the text that \<^verbatim>\<open>fmt.Sprintf(format, v...)\<close> returns.
\<close>

definition Printf :: "env \<Rightarrow> world \<Rightarrow> ptr \<Rightarrow> string \<Rightarrow> LogLevel \<Rightarrow> outcome \<times> world" where
  "Printf e w l msg level =
     (case ensureInitialized w l of
        (Returns, w1) \<Rightarrow>
          (case deref (loggers w1) l of
             None \<Rightarrow> (Panics, w1)
           | Some L \<Rightarrow>
               if level \<le> logLevel L then
                 (case log_Output e w1 (logger L) msg of
                    (Returns, w2) \<Rightarrow> Writer_Flush w2 (writer L)
                  | (oc, w2) \<Rightarrow> (oc, w2))
               else (Returns, w1))
      | (oc, w1) \<Rightarrow> (oc, w1))"

definition Debugf :: "env \<Rightarrow> world \<Rightarrow> ptr \<Rightarrow> string \<Rightarrow> outcome \<times> world" where
  "Debugf e w l msg = Printf e w l msg LogDebug"

definition Errorf :: "env \<Rightarrow> world \<Rightarrow> ptr \<Rightarrow> string \<Rightarrow> outcome \<times> world" where
  "Errorf e w l msg = Printf e w l msg LogErr"

definition Warningf :: "env \<Rightarrow> world \<Rightarrow> ptr \<Rightarrow> string \<Rightarrow> outcome \<times> world" where
  "Warningf e w l msg = Printf e w l msg LogWarning"

text \<open>\<^verbatim>\<open>os.Exit(1)\<close> is reached when \<^verbatim>\<open>Printf\<close> returns.\<close>

definition Fatalf :: "env \<Rightarrow> world \<Rightarrow> ptr \<Rightarrow> string \<Rightarrow> outcome \<times> world" where
  "Fatalf e w l msg =
     (case Printf e w l msg LogErr of
        (Returns, w') \<Rightarrow> (Exits 1, w')
      | (oc, w') \<Rightarrow> (oc, w'))"

definition Infof :: "env \<Rightarrow> world \<Rightarrow> ptr \<Rightarrow> string \<Rightarrow> outcome \<times> world" where
  "Infof e w l msg = Printf e w l msg LogInfo"

definition Emergf :: "env \<Rightarrow> world \<Rightarrow> ptr \<Rightarrow> string \<Rightarrow> outcome \<times> world" where
  "Emergf e w l msg = Printf e w l msg LogEmerg"

definition Alertf :: "env \<Rightarrow> world \<Rightarrow> ptr \<Rightarrow> string \<Rightarrow> outcome \<times> world" where
  "Alertf e w l msg = Printf e w l msg LogAlert"

definition Noticef :: "env \<Rightarrow> world \<Rightarrow> ptr \<Rightarrow> string \<Rightarrow> outcome \<times> world" where
  "Noticef e w l msg = Printf e w l msg LogNotice"

text \<open>
  The copy in \<^verbatim>\<open>picolog.go\<close>. Its \<^verbatim>\<open>NewLogger\<close>, \<^verbatim>\<open>NewSubLogger\<close>, \<^verbatim>\<open>ensureInitialized\<close> and
  \<^verbatim>\<open>Printf\<close> are those above word for word, with \<^verbatim>\<open>syslog.Priority\<close> where \<^verbatim>\<open>part_000\<close> has
  \<^verbatim>\<open>LogLevel\<close>; it has five helpers, and they name the \<^verbatim>\<open>syslog\<close> constants.
\<close>

definition Debugf_v0 :: "env \<Rightarrow> world \<Rightarrow> ptr \<Rightarrow> string \<Rightarrow> outcome \<times> world" where
  "Debugf_v0 e w l msg = Printf e w l msg LOG_DEBUG"

definition Errorf_v0 :: "env \<Rightarrow> world \<Rightarrow> ptr \<Rightarrow> string \<Rightarrow> outcome \<times> world" where
  "Errorf_v0 e w l msg = Printf e w l msg LOG_ERR"

definition Warningf_v0 :: "env \<Rightarrow> world \<Rightarrow> ptr \<Rightarrow> string \<Rightarrow> outcome \<times> world" where
  "Warningf_v0 e w l msg = Printf e w l msg LOG_WARNING"

definition Fatalf_v0 :: "env \<Rightarrow> world \<Rightarrow> ptr \<Rightarrow> string \<Rightarrow> outcome \<times> world" where
  "Fatalf_v0 e w l msg =
     (case Printf e w l msg LOG_CRIT of
        (Returns, w') \<Rightarrow> (Exits 1, w')
      | (oc, w') \<Rightarrow> (oc, w'))"

definition Infof_v0 :: "env \<Rightarrow> world \<Rightarrow> ptr \<Rightarrow> string \<Rightarrow> outcome \<times> world" where
  "Infof_v0 e w l msg = Printf e w l msg LOG_INFO"

subsection \<open>Loggers in working order\<close>

text \<open>
  What \<^verbatim>\<open>NewLogger\<close> sets up and every later call keeps: the logger is initialized, its
  \<^verbatim>\<open>log.Logger\<close> writes to the logger's own writer with the bracketed prefix and the flags of
  its level.
\<close>

definition level_flags :: "LogLevel \<Rightarrow> int" where
  "level_flags T = (if T = LOG_DEBUG then (Ldate OR Ltime) OR Lshortfile else Ldate OR Ltime)"

definition constructed :: "Logger \<Rightarrow> bool" where
  "constructed L =
     (initialized L \<and>
      logger L = Some (log_New (writer L) (''['' @ prefix L @ ''] '') (level_flags (logLevel L))))"

text \<open>
  A logger is ready when, moreover, its writer holds no bytes and no error and sits on the
  logger's destination, and the destination is an open file.
\<close>

definition ready :: "world \<Rightarrow> ptr \<Rightarrow> bool" where
  "ready w l =
     (case deref (loggers w) l of
        None \<Rightarrow> False
      | Some L \<Rightarrow>
          constructed L \<and>
          (case deref (writers w) (writer L) of
             None \<Rightarrow> False
           | Some b \<Rightarrow>
               err b = None \<and> buf b = [] \<and> wr b = destStream L \<and>
               (case deref (files w) (destStream L) of
                  None \<Rightarrow> False
                | Some f \<Rightarrow> \<not> isClosed f)))"

text \<open>The threshold of the logger at \<open>l\<close>, and the bytes that its destination holds.\<close>

definition threshold :: "world \<Rightarrow> ptr \<Rightarrow> LogLevel" where
  "threshold w l = (case deref (loggers w) l of None \<Rightarrow> 0 | Some L \<Rightarrow> logLevel L)"

definition destination :: "world \<Rightarrow> ptr \<Rightarrow> string" where
  "destination w l =
     (case deref (loggers w) l of
        None \<Rightarrow> []
      | Some L \<Rightarrow> (case deref (files w) (destStream L) of None \<Rightarrow> [] | Some f \<Rightarrow> data f))"

definition buffered :: "world \<Rightarrow> ptr \<Rightarrow> string" where
  "buffered w l =
     (case deref (loggers w) l of
        None \<Rightarrow> []
      | Some L \<Rightarrow> (case deref (writers w) (writer L) of None \<Rightarrow> [] | Some b \<Rightarrow> buf b))"

subsection \<open>Auxiliary notions for the statements\<close>

text \<open>
  The store after \<open>p\<close> has been appended to the file at address \<open>f\<close>.
\<close>

definition appended :: "world \<Rightarrow> nat \<Rightarrow> string \<Rightarrow> world" where
  "appended w f p = w\<lparr>files := (files w)[f := (files w ! f)\<lparr>data := data (files w ! f) @ p\<rparr>]\<rparr>"

text \<open>
  The line that \<^verbatim>\<open>Output\<close> builds for the logger at \<open>l\<close>, the prefix that the logger
  stores, and whether a call has changed the bytes of the logger's destination.
\<close>

definition logged_line :: "env \<Rightarrow> world \<Rightarrow> ptr \<Rightarrow> string \<Rightarrow> string" where
  "logged_line e w l msg =
     (case deref (loggers w) l of
        None \<Rightarrow> []
      | Some L \<Rightarrow> (case logger L of None \<Rightarrow> [] | Some g \<Rightarrow> output_line e g msg))"

definition stored_prefix :: "world \<Rightarrow> ptr \<Rightarrow> string" where
  "stored_prefix w l = (case deref (loggers w) l of None \<Rightarrow> [] | Some L \<Rightarrow> prefix L)"

definition emits :: "world \<Rightarrow> outcome \<times> world \<Rightarrow> ptr \<Rightarrow> bool" where
  "emits w r l = (destination (snd r) l \<noteq> destination w l)"

text \<open>
  The text \<^verbatim>\<open>file:line: \<close> that \<^verbatim>\<open>Lshortfile\<close> adds: the last path element of the caller's
  file and the line number, or \<^verbatim>\<open>???:0\<close> when the caller is unknown.
\<close>

definition position_text :: "env \<Rightarrow> string" where
  "position_text e =
     shortfile (if callerOk e then callerFile e else ''???'') @ '':''
     @ itoa (if callerOk e then callerLine e else 0) (- 1) @ '': ''"

text \<open>
  The format of a line as the specification words it, \<^verbatim>\<open>[prefix] MM/DD/YYYY HH:MM:SS message\<close>:
  month, day and year in that order, with the two and four digits of \<^verbatim>\<open>itoa\<close>.
\<close>

definition claimed_line :: "string \<Rightarrow> Time \<Rightarrow> string \<Rightarrow> string" where
  "claimed_line p t msg =
     ''['' @ p @ ''] '' @ itoa (month t) 2 @ ''/'' @ itoa (day t) 2 @ ''/'' @ itoa (year t) 4
     @ '' '' @ clock_text t @ '' '' @ msg"

text \<open>
  A chain of \<^verbatim>\<open>NewSubLogger\<close> calls, each on the result of the one before, as
  \<^verbatim>\<open>TestSubLogger\<close> makes them; and a prefix between brackets.
\<close>

fun NewSubLoggers :: "world \<Rightarrow> ptr \<Rightarrow> string list \<Rightarrow> outcome \<times> ptr \<times> world" where
  "NewSubLoggers w l [] = (Returns, l, w)"
| "NewSubLoggers w l (c # cs) =
     (case NewSubLogger w l c of
        (Returns, sub, w') \<Rightarrow> NewSubLoggers w' sub cs
      | (oc, sub, w') \<Rightarrow> (oc, sub, w'))"

definition bracketed :: "string \<Rightarrow> string" where
  "bracketed p = ''['' @ p @ '']''"

subsection \<open>Stores and loggers for examples\<close>

text \<open>
  A store with one open file and the standard error stream and no logger yet, and a
  moment and caller position for \<^verbatim>\<open>Output\<close>.
\<close>

definition world0 :: world where
  "world0 = \<lparr>files = [\<lparr>data = [], isClosed = False\<rparr>, \<lparr>data = [], isClosed = False\<rparr>],
            writers = [], loggers = [], Stderr = Some 1\<rparr>"

definition env0 :: env where
  "env0 = \<lparr>now = \<lparr>year = 2009, month = 1, day = 23, hour = 1, minute = 23, second = 23\<rparr>,
          callerFile = ''/home/user/main.go'', callerLine = 42, callerOk = True\<rparr>"

text \<open>
  Loggers on the open file: at INFO as in \<^verbatim>\<open>TestLogger\<close> and \<^verbatim>\<open>TestSubLogger\<close>, at DEBUG
  and at CRIT.
\<close>

definition world1 :: world where
  "world1 = snd (NewLogger world0 LogInfo ''test'' (Some 0))"

definition logger1 :: ptr where
  "logger1 = fst (NewLogger world0 LogInfo ''test'' (Some 0))"

definition world2 :: world where
  "world2 = snd (NewLogger world0 LogDebug ''test'' (Some 0))"

definition logger2 :: ptr where
  "logger2 = fst (NewLogger world0 LogDebug ''test'' (Some 0))"

definition worldT :: world where
  "worldT = snd (NewLogger world0 LogInfo ''test1'' (Some 0))"

definition loggerT :: ptr where
  "loggerT = fst (NewLogger world0 LogInfo ''test1'' (Some 0))"

definition worldC :: world where
  "worldC = snd (NewLogger world0 LogCrit ''test'' (Some 0))"

definition loggerC :: ptr where
  "loggerC = fst (NewLogger world0 LogCrit ''test'' (Some 0))"

text \<open>
  A logger whose destination is the \<^verbatim>\<open>nil\<close> file.
\<close>

definition worldN :: world where
  "worldN = snd (NewLogger world0 LogInfo ''test'' None)"

definition loggerN :: ptr where
  "loggerN = fst (NewLogger world0 LogInfo ''test'' None)"

text \<open>
  The zero value of \<^verbatim>\<open>Logger\<close>, which a client obtains with \<^verbatim>\<open>new(picolog.Logger)\<close>, in
  a store of its own.
\<close>

definition zeroLogger :: Logger where
  "zeroLogger = \<lparr>logLevel = 0, logger = None, writer = None, destStream = None, prefix = [],
                 subloggers = [], initialized = False\<rparr>"

definition worldZ :: world where
  "worldZ = world0\<lparr>loggers := [zeroLogger]\<rparr>"

section \<open>Properties\<close>

lemmas syslog_defs =
  LOG_EMERG_def LOG_ALERT_def LOG_CRIT_def LOG_ERR_def
  LOG_WARNING_def LOG_NOTICE_def LOG_INFO_def LOG_DEBUG_def

lemmas level_defs =
  LogDebug_def LogInfo_def LogNotice_def LogWarning_def
  LogErr_def LogCrit_def LogAlert_def LogEmerg_def

lemmas flag_defs = Ldate_def Ltime_def Lmicroseconds_def Llongfile_def Lshortfile_def

subsection \<open>Levels and their names\<close>

lemma names_ascii:
  "isASCII ''emerg''" "isASCII ''alert''" "isASCII ''crit''" "isASCII ''err''"
  "isASCII ''warning''" "isASCII ''notice''" "isASCII ''info''" "isASCII ''debug''"
  "isASCII ''EMERG''" "isASCII ''ALERT''" "isASCII ''CRIT''" "isASCII ''ERR''"
  "isASCII ''WARNING''" "isASCII ''NOTICE''" "isASCII ''INFO''" "isASCII ''DEBUG''"
  by (simp_all add: isASCII_def)

lemma names_lower:
  "map lowerASCII ''emerg'' = ''emerg''" "map lowerASCII ''alert'' = ''alert''"
  "map lowerASCII ''crit'' = ''crit''" "map lowerASCII ''err'' = ''err''"
  "map lowerASCII ''warning'' = ''warning''" "map lowerASCII ''notice'' = ''notice''"
  "map lowerASCII ''info'' = ''info''" "map lowerASCII ''debug'' = ''debug''"
  by code_simp+

lemma names_upper:
  "map upperASCII ''emerg'' = ''EMERG''" "map upperASCII ''alert'' = ''ALERT''"
  "map upperASCII ''crit'' = ''CRIT''" "map upperASCII ''err'' = ''ERR''"
  "map upperASCII ''warning'' = ''WARNING''" "map upperASCII ''notice'' = ''NOTICE''"
  "map upperASCII ''info'' = ''INFO''" "map upperASCII ''debug'' = ''DEBUG''"
  by code_simp+

lemma upper_names_lower:
  "map lowerASCII ''EMERG'' = ''emerg''" "map lowerASCII ''ALERT'' = ''alert''"
  "map lowerASCII ''CRIT'' = ''crit''" "map lowerASCII ''ERR'' = ''err''"
  "map lowerASCII ''WARNING'' = ''warning''" "map lowerASCII ''NOTICE'' = ''notice''"
  "map lowerASCII ''INFO'' = ''info''" "map lowerASCII ''DEBUG'' = ''debug''"
  by code_simp+

lemma ToLower_names:
  "ToLower uni ''emerg'' = ''emerg''" "ToLower uni ''alert'' = ''alert''"
  "ToLower uni ''crit'' = ''crit''" "ToLower uni ''err'' = ''err''"
  "ToLower uni ''warning'' = ''warning''" "ToLower uni ''notice'' = ''notice''"
  "ToLower uni ''info'' = ''info''" "ToLower uni ''debug'' = ''debug''"
  by (simp_all only: ToLower_def names_ascii names_lower if_True)

lemma ToLower_upper_names:
  "ToLower uni ''EMERG'' = ''emerg''" "ToLower uni ''ALERT'' = ''alert''"
  "ToLower uni ''CRIT'' = ''crit''" "ToLower uni ''ERR'' = ''err''"
  "ToLower uni ''WARNING'' = ''warning''" "ToLower uni ''NOTICE'' = ''notice''"
  "ToLower uni ''INFO'' = ''info''" "ToLower uni ''DEBUG'' = ''debug''"
  by (simp_all only: ToLower_def names_ascii upper_names_lower if_True)

lemma ToUpper_names:
  "ToUpper uni ''emerg'' = ''EMERG''" "ToUpper uni ''alert'' = ''ALERT''"
  "ToUpper uni ''crit'' = ''CRIT''" "ToUpper uni ''err'' = ''ERR''"
  "ToUpper uni ''warning'' = ''WARNING''" "ToUpper uni ''notice'' = ''NOTICE''"
  "ToUpper uni ''info'' = ''INFO''" "ToUpper uni ''debug'' = ''DEBUG''"
  by (simp_all only: ToUpper_def names_ascii names_upper if_True)

lemma ParseLogLevel_of_lower:
  "ToLower uni s = LogLevel_String L \<Longrightarrow> L \<in> set all_levels \<Longrightarrow> ParseLogLevel uni s = (L, None)"
  by (auto simp: all_levels_def level_defs syslog_defs LogLevel_String_def ParseLogLevel_def)

text \<open>
  Claim C7. The ordinals of the eight levels increase strictly in the order EMERG, ALERT,
  CRIT, ERR, WARNING, NOTICE, INFO, DEBUG: the lower the ordinal, the higher the severity.
\<close>

theorem levels_strictly_increasing:
  "LogEmerg < LogAlert \<and> LogAlert < LogCrit \<and> LogCrit < LogErr \<and> LogErr < LogWarning \<and>
   LogWarning < LogNotice \<and> LogNotice < LogInfo \<and> LogInfo < LogDebug"
  by (simp add: level_defs syslog_defs)

text \<open>
  Claim C3. For each of the eight levels \<open>L\<close>, \<^verbatim>\<open>ParseLogLevel\<close> returns \<open>L\<close> and no error on
  the lowercase name \<^verbatim>\<open>String(L)\<close>, on its uppercase form, and on every ASCII string that
  differs from the name only in the case of its letters.
\<close>

theorem ParseLogLevel_String:
  assumes "L \<in> set all_levels"
  shows "ParseLogLevel uni (LogLevel_String L) = (L, None) \<and>
         ParseLogLevel uni (ToUpper uni' (LogLevel_String L)) = (L, None) \<and>
         (\<forall>s. isASCII s \<and> map lowerASCII s = LogLevel_String L \<longrightarrow> ParseLogLevel uni s = (L, None))"
proof -
  have lower: "ToLower uni (LogLevel_String L) = LogLevel_String L"
    using assms
    by (auto simp: all_levels_def level_defs syslog_defs LogLevel_String_def ToLower_names)
  have upper: "ToLower uni (ToUpper uni' (LogLevel_String L)) = LogLevel_String L"
    using assms
    by (auto simp: all_levels_def level_defs syslog_defs LogLevel_String_def
                   ToUpper_names ToLower_upper_names)
  have mixed: "ToLower uni s = LogLevel_String L"
    if "isASCII s \<and> map lowerASCII s = LogLevel_String L" for s
    using that by (simp add: ToLower_def)
  show ?thesis
    using assms lower upper mixed by (simp add: ParseLogLevel_of_lower)
qed

theorem ParseLogLevel_String_witness:
  "LogInfo \<in> set all_levels \<and>
   ParseLogLevel (\<lambda>s. s) ''info'' = (LogInfo, None) \<and>
   ParseLogLevel (\<lambda>s. s) ''INFO'' = (LogInfo, None) \<and>
   ParseLogLevel (\<lambda>s. s) ''InFo'' = (LogInfo, None)"
proof -
  have h: "LogInfo \<in> set all_levels" by (simp add: all_levels_def)
  have s: "LogLevel_String LogInfo = ''info''"
    by (simp add: LogLevel_String_def level_defs syslog_defs)
  have m: "isASCII ''InFo'' \<and> map lowerASCII ''InFo'' = ''info''"
    by code_simp
  show ?thesis
    using h m ParseLogLevel_String [OF h, of "\<lambda>s. s" "\<lambda>s. s"]
    by (simp add: s ToUpper_names)
qed

lemma is_level_name_iff:
  "is_level_name uni s = (ToLower uni s \<in> set level_names)"
  by (auto simp: is_level_name_def equal_ignoring_case_def level_names_def ToLower_names)

text \<open>
  Claim C6. A string that is not, up to case, one of the eight level names is rejected:
  \<^verbatim>\<open>ParseLogLevel\<close> returns the level 0 and the error \<^verbatim>\<open>Invalid log level\<close> with the lowered
  string.
\<close>

theorem ParseLogLevel_rejects:
  assumes "\<not> is_level_name uni s"
  shows "ParseLogLevel uni s = (0, Some (fmt_Errorf (''Invalid log level: '' @ ToLower uni s)))"
  using assms by (simp add: is_level_name_iff level_names_def ParseLogLevel_def)

theorem ParseLogLevel_rejects_witness:
  "\<not> is_level_name (\<lambda>s. s) ''invalid'' \<and>
   ParseLogLevel (\<lambda>s. s) ''invalid'' = (0, Some (fmt_Errorf ''Invalid log level: invalid''))"
proof -
  have l: "ToLower (\<lambda>s. s) ''invalid'' = ''invalid''" by code_simp
  have h: "\<not> is_level_name (\<lambda>s. s) ''invalid''"
    by (simp add: is_level_name_iff level_names_def l)
  show ?thesis
    using h ParseLogLevel_rejects [OF h] by (simp add: l)
qed

subsection \<open>Writing to a ready logger\<close>

lemma deref_Some_iff: "deref xs p = Some x \<longleftrightarrow> (\<exists>i. p = Some i \<and> i < length xs \<and> xs ! i = x)"
  by (auto simp: deref_def split: option.splits)

lemma deref_append: "deref xs p = Some x \<Longrightarrow> deref (xs @ ys) p = Some x"
  by (auto simp: deref_def nth_append split: option.splits if_splits)

lemma File_Write_open:
  "i < length fs \<Longrightarrow> \<not> isClosed (fs ! i) \<Longrightarrow>
   File_Write fs (Some i) p = ((length p, None), fs[i := (fs ! i)\<lparr>data := data (fs ! i) @ p\<rparr>])"
  by (simp add: File_Write_def)

lemma NewLogger_result:
  "NewLogger w T P dest =
     (Some (length (loggers w)),
      w\<lparr>writers := writers w @ [NewWriter dest],
        loggers := loggers w @
          [\<lparr>logLevel = T,
            logger = Some (log_New (Some (length (writers w))) (''['' @ P @ ''] '') (level_flags T)),
            writer = Some (length (writers w)), destStream = dest, prefix = P,
            subloggers = [], initialized = True\<rparr>]\<rparr>)"
  by (simp add: NewLogger_def Let_def level_flags_def)

text \<open>
  On a writer without bytes or error over an open file, \<^verbatim>\<open>Write\<close> followed by \<^verbatim>\<open>Flush\<close>
  appends \<open>p\<close> to the file and leaves the writer as it was, whether \<open>p\<close> fits the
  buffer or not.
\<close>

lemma bufio_Write_Flush_open:
  assumes "err b = None" "buf b = []" "wr b = Some i" "i < length fs" "\<not> isClosed (fs ! i)"
  shows "bufio_Flush (fst (bufio_Write b fs p)) (snd (bufio_Write b fs p)) =
         (b, fs[i := (fs ! i)\<lparr>data := data (fs ! i) @ p\<rparr>])"
proof (cases "Available b < length p")
  case True
  let ?fs' = "fs[i := (fs ! i)\<lparr>data := data (fs ! i) @ p\<rparr>]"
  have same: "b\<lparr>err := None\<rparr> = b"
    using assms by simp
  have "bufio_Write b fs p = bufio_Write b ?fs' []"
    using True assms by (subst bufio_Write.simps) (simp add: File_Write_open same)
  also have "\<dots> = (b, ?fs')"
    using assms by (subst bufio_Write.simps) simp
  finally show ?thesis
    using assms by (simp add: bufio_Flush_def)
next
  case False
  have w: "bufio_Write b fs p = (b\<lparr>buf := p\<rparr>, fs)"
    using False assms by (subst bufio_Write.simps) simp
  show ?thesis
  proof (cases "p = []")
    case True
    then show ?thesis using assms w by (simp add: bufio_Flush_def)
  next
    case False
    then show ?thesis using assms w by (simp add: bufio_Flush_def File_Write_open)
  qed
qed

lemma ready_D:
  assumes "ready w l"
  obtains i L wi fi where "l = Some i" "i < length (loggers w)" "loggers w ! i = L"
    "constructed L" "writer L = Some wi" "wi < length (writers w)"
    "err (writers w ! wi) = None" "buf (writers w ! wi) = []" "wr (writers w ! wi) = Some fi"
    "destStream L = Some fi" "fi < length (files w)" "\<not> isClosed (files w ! fi)"
  using assms unfolding ready_def deref_def
  by (auto split: option.splits if_splits)

lemma Printf_ready:
  assumes "ready w l" "deref (loggers w) l = Some L" "destStream L = Some f"
  shows "Printf e w l msg S =
         (Returns, if S \<le> logLevel L
                   then appended w f (output_line e
                          (log_New (writer L) (''['' @ prefix L @ ''] '') (level_flags (logLevel L))) msg)
                   else w)"
proof -
  from assms(1) obtain i L' wi fi where r: "l = Some i" "i < length (loggers w)" "loggers w ! i = L'"
    "constructed L'" "writer L' = Some wi" "wi < length (writers w)"
    "err (writers w ! wi) = None" "buf (writers w ! wi) = []" "wr (writers w ! wi) = Some fi"
    "destStream L' = Some fi" "fi < length (files w)" "\<not> isClosed (files w ! fi)"
    by (rule ready_D)
  have L: "L' = L" using assms(2) r by (simp add: deref_def)
  have f: "fi = f" using assms(3) r L by simp
  have ens: "ensureInitialized w l = (Returns, w)"
    using assms(2) r L by (simp add: ensureInitialized_def constructed_def)
  show ?thesis
  proof (cases "S \<le> logLevel L")
    case False
    then show ?thesis using ens assms(2) by (simp add: Printf_def)
  next
    case True
    let ?g = "log_New (writer L) (''['' @ prefix L @ ''] '') (level_flags (logLevel L))"
    let ?p = "output_line e ?g msg"
    let ?b = "writers w ! wi"
    have lg: "logger L = Some ?g" using r L by (simp add: constructed_def)
    have og: "out ?g = Some wi" using r L by (simp add: log_New_def)
    obtain b' fs' where bw: "bufio_Write ?b (files w) ?p = (b', fs')"
      by (cases "bufio_Write ?b (files w) ?p")
    have fl: "bufio_Flush b' fs' = (?b, (files w)[f := (files w ! f)\<lparr>data := data (files w ! f) @ ?p\<rparr>])"
      using bufio_Write_Flush_open [of ?b f "files w" ?p] r f bw by simp
    have out: "log_Output e w (logger L) msg = (Returns, w\<lparr>files := fs', writers := (writers w)[wi := b']\<rparr>)"
      using lg og r bw by (simp add: log_Output_def)
    have "Writer_Flush (w\<lparr>files := fs', writers := (writers w)[wi := b']\<rparr>) (writer L) =
          (Returns, appended w f ?p)"
      using r L fl by (simp add: Writer_Flush_def appended_def list_update_same_conv)
    then show ?thesis
      using True ens assms(2) out by (simp add: Printf_def)
  qed
qed

lemma output_line_not_Nil: "output_line e g msg \<noteq> []"
  by (simp add: output_line_def Let_def)

lemma Printf_ready_effect:
  assumes "ready w l"
  shows "fst (Printf e w l msg S) = Returns"
    and "S \<le> threshold w l \<Longrightarrow>
           destination (snd (Printf e w l msg S)) l = destination w l @ logged_line e w l msg"
    and "S \<le> threshold w l \<Longrightarrow> buffered (snd (Printf e w l msg S)) l = []"
    and "\<not> S \<le> threshold w l \<Longrightarrow> snd (Printf e w l msg S) = w"
    and "ready (snd (Printf e w l msg S)) l"
proof -
  from assms obtain i L wi fi where r: "l = Some i" "i < length (loggers w)" "loggers w ! i = L"
    "constructed L" "writer L = Some wi" "wi < length (writers w)"
    "err (writers w ! wi) = None" "buf (writers w ! wi) = []" "wr (writers w ! wi) = Some fi"
    "destStream L = Some fi" "fi < length (files w)" "\<not> isClosed (files w ! fi)"
    by (rule ready_D)
  have d: "deref (loggers w) l = Some L" using r by (simp add: deref_def)
  note P = Printf_ready [OF assms d r(10), of e msg S]
  have lg: "logger L = Some (log_New (writer L) (''['' @ prefix L @ ''] '') (level_flags (logLevel L)))"
    using r by (simp add: constructed_def)
  show "fst (Printf e w l msg S) = Returns" using P by simp
  show "destination (snd (Printf e w l msg S)) l = destination w l @ logged_line e w l msg"
    if "S \<le> threshold w l"
    using that P d r lg
    by (simp add: threshold_def destination_def logged_line_def appended_def deref_def)
  show "buffered (snd (Printf e w l msg S)) l = []" if "S \<le> threshold w l"
    using that P d r by (simp add: threshold_def buffered_def appended_def deref_def)
  show "snd (Printf e w l msg S) = w" if "\<not> S \<le> threshold w l"
    using that P d by (simp add: threshold_def)
  show "ready (snd (Printf e w l msg S)) l"
    using P assms r by (auto simp: ready_def appended_def deref_def)
qed

lemma Printf_ready_loggers:
  assumes "ready w l"
  shows "loggers (snd (Printf e w l msg S)) = loggers w"
proof -
  from assms obtain L f where "deref (loggers w) l = Some L" "destStream L = Some f"
    by (auto simp: ready_def deref_def split: option.splits if_splits)
  from Printf_ready [OF assms this, of e msg S] show ?thesis
    by (simp add: appended_def)
qed

lemma emits_Printf:
  assumes "ready w l"
  shows "emits w (Printf e w l msg S) l = (S \<le> threshold w l)"
  using Printf_ready_effect(2,4) [OF assms, of S e msg] output_line_not_Nil assms
  by (cases "S \<le> threshold w l")
     (auto simp: emits_def logged_line_def ready_def constructed_def split: option.splits)

lemma snd_Fatalf: "snd (Fatalf e w l msg) = snd (Printf e w l msg LogErr)"
  by (simp add: Fatalf_def split: prod.splits outcome.splits)

lemma snd_Fatalf_v0: "snd (Fatalf_v0 e w l msg) = snd (Printf e w l msg LOG_CRIT)"
  by (simp add: Fatalf_v0_def split: prod.splits outcome.splits)

text \<open>
  Only \<^verbatim>\<open>NewLogger\<close> and \<^verbatim>\<open>NewSubLogger\<close> change the loggers of the store, and only a
  write changes its files.
\<close>

lemma loggers_log_Output:
  "loggers (snd (log_Output e w lg s)) = loggers w"
  by (simp add: log_Output_def split: option.splits prod.splits)

lemma loggers_Writer_Flush:
  "loggers (snd (Writer_Flush w p)) = loggers w"
  by (simp add: Writer_Flush_def split: option.splits prod.splits)

lemma loggers_initializeDefaultLogger:
  "loggers (initializeDefaultLogger w l) =
   loggers w @ [the (deref (loggers (initializeDefaultLogger w l)) (Some (length (loggers w))))]"
  by (simp add: initializeDefaultLogger_def NewDefaultLogger_def NewLogger_def Let_def deref_def)

lemma deref_ensureInitialized:
  assumes "deref (loggers w) l = Some L"
  shows "fst (ensureInitialized w l) = Returns \<and>
         deref (loggers (snd (ensureInitialized w l))) l = Some L"
proof (cases "initialized L")
  case True
  then show ?thesis using assms by (simp add: ensureInitialized_def)
next
  case False
  have "deref (loggers (initializeDefaultLogger w l)) l = Some L"
    by (subst loggers_initializeDefaultLogger) (rule deref_append [OF assms])
  then show ?thesis using False assms by (simp add: ensureInitialized_def)
qed

lemma files_ensureInitialized: "files (snd (ensureInitialized w l)) = files w"
  by (simp add: ensureInitialized_def initializeDefaultLogger_def NewDefaultLogger_def
                NewLogger_result split: option.splits)

lemma files_Printf_above:
  assumes "\<not> S \<le> threshold w l"
  shows "files (snd (Printf e w l msg S)) = files w"
proof (cases "deref (loggers w) l")
  case None
  then show ?thesis by (simp add: Printf_def ensureInitialized_def)
next
  case (Some L)
  obtain w1 where w1: "ensureInitialized w l = (Returns, w1)"
    using deref_ensureInitialized [OF Some] by (cases "ensureInitialized w l") simp
  have d1: "deref (loggers w1) l = Some L"
    using deref_ensureInitialized [OF Some] w1 by simp
  have f1: "files w1 = files w"
    using files_ensureInitialized [of w l] w1 by simp
  show ?thesis
    using assms Some w1 d1 f1 by (simp add: Printf_def threshold_def)
qed

text \<open>
  Readiness is what the constructors establish on an open file, and every call keeps it
  for every logger.
\<close>

lemma NewLogger_ready:
  assumes "deref (files w) dest = Some f" and "\<not> isClosed f"
  shows "ready (snd (NewLogger w T P dest)) (fst (NewLogger w T P dest))"
  using assms
  by (simp add: NewLogger_result ready_def deref_def constructed_def NewWriter_def
           split: option.splits if_splits)

lemma NewLogger_keeps_ready:
  assumes "ready w l"
  shows "ready (snd (NewLogger w T P dest)) l"
proof -
  from assms obtain i L wi fi where r: "l = Some i" "i < length (loggers w)" "loggers w ! i = L"
    "constructed L" "writer L = Some wi" "wi < length (writers w)"
    "err (writers w ! wi) = None" "buf (writers w ! wi) = []" "wr (writers w ! wi) = Some fi"
    "destStream L = Some fi" "fi < length (files w)" "\<not> isClosed (files w ! fi)"
    by (rule ready_D)
  then show ?thesis
    by (simp add: NewLogger_result ready_def deref_def nth_append)
qed

lemma NewSubLogger_ready:
  assumes "ready w l"
  shows "\<exists>sub w'. NewSubLogger w l C = (Returns, sub, w') \<and> ready w' sub \<and> ready w' l"
proof -
  from assms obtain i L wi fi where r: "l = Some i" "i < length (loggers w)" "loggers w ! i = L"
    "constructed L" "writer L = Some wi" "wi < length (writers w)"
    "err (writers w ! wi) = None" "buf (writers w ! wi) = []" "wr (writers w ! wi) = Some fi"
    "destStream L = Some fi" "fi < length (files w)" "\<not> isClosed (files w ! fi)"
    by (rule ready_D)
  then show ?thesis
    by (simp add: NewSubLogger_def NewLogger_result ready_def deref_def nth_append
                  constructed_def NewWriter_def)
qed

lemma Printf_keeps_ready:
  assumes "ready w l" and "ready w l'"
  shows "ready (snd (Printf e w l msg S)) l'"
proof -
  from assms(1) obtain j K wj f where q: "l = Some j" "j < length (loggers w)" "loggers w ! j = K"
    "constructed K" "writer K = Some wj" "wj < length (writers w)"
    "err (writers w ! wj) = None" "buf (writers w ! wj) = []" "wr (writers w ! wj) = Some f"
    "destStream K = Some f" "f < length (files w)" "\<not> isClosed (files w ! f)"
    by (rule ready_D)
  have d: "deref (loggers w) l = Some K"
    using q by (simp add: deref_def)
  from assms(2) obtain i L wi fi where r: "l' = Some i" "i < length (loggers w)" "loggers w ! i = L"
    "constructed L" "writer L = Some wi" "wi < length (writers w)"
    "err (writers w ! wi) = None" "buf (writers w ! wi) = []" "wr (writers w ! wi) = Some fi"
    "destStream L = Some fi" "fi < length (files w)" "\<not> isClosed (files w ! fi)"
    by (rule ready_D)
  show ?thesis
    using Printf_ready [OF assms(1) d q(10), of e msg S] r q(11,12)
    by (simp add: ready_def deref_def appended_def nth_list_update)
qed

subsection \<open>The example stores\<close>

lemma ready_world1: "ready world1 logger1"
  by (simp add: world1_def logger1_def world0_def NewLogger_def NewWriter_def ready_def
                constructed_def deref_def Let_def level_flags_def log_New_def
                level_defs syslog_defs flag_defs)

lemma threshold_world1: "threshold world1 logger1 = LogInfo"
  by (simp add: world1_def logger1_def world0_def NewLogger_def threshold_def deref_def Let_def)

lemma destination_world1: "destination world1 logger1 = []"
  by (simp add: world1_def logger1_def world0_def NewLogger_def destination_def deref_def Let_def)

lemma logged_line_world1:
  "logged_line env0 world1 logger1 ''logging things'' =
   ''[test] 2009/01/23 01:23:23 logging things'' @ [newline]"
  by code_simp

lemma logged_line_world1_again:
  "logged_line env0 world1 logger1 ''one'' = ''[test] 2009/01/23 01:23:23 one'' @ [newline]"
  "logged_line env0 world1 logger1 ''two'' = ''[test] 2009/01/23 01:23:23 two'' @ [newline]"
  by code_simp+

lemma ready_world2: "ready world2 logger2"
  by (simp add: world2_def logger2_def world0_def NewLogger_def NewWriter_def ready_def
                constructed_def deref_def Let_def level_flags_def log_New_def
                level_defs syslog_defs flag_defs)

lemma eval_world2:
  "threshold world2 logger2 = LogDebug" "destination world2 logger2 = []"
  "stored_prefix world2 logger2 = ''test''"
  by (simp_all add: world2_def logger2_def world0_def NewLogger_def threshold_def destination_def
                    stored_prefix_def deref_def Let_def)

lemma eval_env0:
  "itoa (year (now env0)) 4 = ''2009''" "itoa (month (now env0)) 2 = ''01''"
  "itoa (day (now env0)) 2 = ''23''" "itoa (hour (now env0)) 2 = ''01''"
  "itoa (minute (now env0)) 2 = ''23''" "itoa (second (now env0)) 2 = ''23''"
  "position_text env0 = ''main.go:42: ''"
  by code_simp+

lemma deref_worldT: "deref (loggers worldT) loggerT = Some (loggers worldT ! 0)"
  by (simp add: worldT_def loggerT_def world0_def NewLogger_result deref_def)

lemma eval_worldT:
  "logLevel (loggers worldT ! 0) = LogInfo" "destStream (loggers worldT ! 0) = Some 0"
  "prefix (loggers worldT ! 0) = ''test1''"
  by (simp_all add: worldT_def world0_def NewLogger_result)

subsection \<open>The level filter\<close>

text \<open>
  Claim C1. A call of \<^verbatim>\<open>Printf\<close> at a severity \<open>S\<close> above the threshold \<open>T\<close> writes to no
  file, whatever the logger. On a ready logger \<^verbatim>\<open>Printf\<close> changes the destination if and only
  if \<open>S \<le> T\<close>: it then appends the line of the message, and otherwise it leaves the whole
  store as it was. Each helper of either copy does so at the severity it passes to
  \<^verbatim>\<open>Printf\<close>.
\<close>

theorem Printf_filters_by_level:
  "(\<not> S \<le> threshold w l \<longrightarrow> files (snd (Printf e w l msg S)) = files w) \<and>
   (ready w l \<longrightarrow>
      emits w (Printf e w l msg S) l = (S \<le> threshold w l) \<and>
      (S \<le> threshold w l \<longrightarrow>
         destination (snd (Printf e w l msg S)) l = destination w l @ logged_line e w l msg) \<and>
      (\<not> S \<le> threshold w l \<longrightarrow> snd (Printf e w l msg S) = w) \<and>
      emits w (Debugf e w l msg) l = (LogDebug \<le> threshold w l) \<and>
      emits w (Infof e w l msg) l = (LogInfo \<le> threshold w l) \<and>
      emits w (Noticef e w l msg) l = (LogNotice \<le> threshold w l) \<and>
      emits w (Warningf e w l msg) l = (LogWarning \<le> threshold w l) \<and>
      emits w (Errorf e w l msg) l = (LogErr \<le> threshold w l) \<and>
      emits w (Fatalf e w l msg) l = (LogErr \<le> threshold w l) \<and>
      emits w (Alertf e w l msg) l = (LogAlert \<le> threshold w l) \<and>
      emits w (Emergf e w l msg) l = (LogEmerg \<le> threshold w l) \<and>
      emits w (Debugf_v0 e w l msg) l = (LOG_DEBUG \<le> threshold w l) \<and>
      emits w (Infof_v0 e w l msg) l = (LOG_INFO \<le> threshold w l) \<and>
      emits w (Warningf_v0 e w l msg) l = (LOG_WARNING \<le> threshold w l) \<and>
      emits w (Errorf_v0 e w l msg) l = (LOG_ERR \<le> threshold w l) \<and>
      emits w (Fatalf_v0 e w l msg) l = (LOG_CRIT \<le> threshold w l))"
proof -
  have fatal: "emits w (Fatalf e w l msg) l = emits w (Printf e w l msg LogErr) l"
    by (simp add: emits_def snd_Fatalf)
  have fatal0: "emits w (Fatalf_v0 e w l msg) l = emits w (Printf e w l msg LOG_CRIT) l"
    by (simp add: emits_def snd_Fatalf_v0)
  have above: "\<not> S \<le> threshold w l \<longrightarrow> files (snd (Printf e w l msg S)) = files w"
    by (simp add: files_Printf_above)
  have on_ready: "emits w (Printf e w l msg S') l = (S' \<le> threshold w l)" if "ready w l" for S'
    by (rule emits_Printf [OF that])
  have line: "destination (snd (Printf e w l msg S)) l = destination w l @ logged_line e w l msg"
    if "ready w l" "S \<le> threshold w l"
    by (rule Printf_ready_effect(2) [OF that])
  have same: "snd (Printf e w l msg S) = w" if "ready w l" "\<not> S \<le> threshold w l"
    by (rule Printf_ready_effect(4) [OF that])
  show ?thesis
    using above on_ready line same
    by (simp add: fatal fatal0 Debugf_def Infof_def Noticef_def Warningf_def Errorf_def
                  Alertf_def Emergf_def Debugf_v0_def Infof_v0_def Warningf_v0_def Errorf_v0_def)
qed

theorem Printf_filters_by_level_witness:
  "ready world1 logger1 \<and>
   destination (snd (Printf env0 world1 logger1 ''logging things'' LogInfo)) logger1 =
     ''[test] 2009/01/23 01:23:23 logging things'' @ [newline] \<and>
   emits world1 (Infof env0 world1 logger1 ''logging things'') logger1 \<and>
   snd (Printf env0 world1 logger1 ''logging things'' LogDebug) = world1 \<and>
   \<not> emits world1 (Debugf env0 world1 logger1 ''logging things'') logger1"
  using Printf_filters_by_level [of LogInfo world1 logger1 env0 "''logging things''"]
        Printf_filters_by_level [of LogDebug world1 logger1 env0 "''logging things''"]
  by (simp add: ready_world1 threshold_world1 destination_world1 logged_line_world1
                level_defs syslog_defs)

subsection \<open>The format of a line\<close>

lemma digits_below_ten: "\<forall>d \<in> set [0..<10]. digit d \<in> set ''0123456789''"
  by code_simp

lemma digit_range: "d < 10 \<Longrightarrow> digit d \<in> set ''0123456789''"
  using digits_below_ten by simp

text \<open>
  \<^verbatim>\<open>itoa\<close> with a width \<open>k\<close> gives exactly \<open>k\<close> decimal digits to a number below \<open>10 ^ k\<close>:
  two for a month, a day, an hour, a minute or a second, four for a year up to 9999.
\<close>

lemma itoa_padded:
  "0 < k \<Longrightarrow> i < 10 ^ k \<Longrightarrow>
   length (itoa i (int k)) = k \<and> set (itoa i (int k)) \<subseteq> set ''0123456789''"
proof (induction k arbitrary: i)
  case 0
  then show ?case by simp
next
  case (Suc k)
  show ?case
  proof (cases "k = 0")
    case True
    then have "i < 10" using Suc.prems by simp
    then show ?thesis
      using True digit_range [of i] by (subst (1 2) itoa.simps) simp
  next
    case False
    have "i div 10 < 10 ^ k" using Suc.prems by (simp add: less_mult_imp_div_less mult.commute)
    then have ih: "length (itoa (i div 10) (int k)) = k \<and>
                   set (itoa (i div 10) (int k)) \<subseteq> set ''0123456789''"
      using Suc.IH False by simp
    have m: "i - i div 10 * 10 < 10"
      by (simp add: minus_div_mult_eq_mod)
    have u: "itoa i (int (Suc k)) = itoa (i div 10) (int k) @ [digit (i - i div 10 * 10)]"
      using False by (subst itoa.simps) simp
    show ?thesis
      using ih digit_range [OF m] unfolding u by simp
  qed
qed

lemma output_line_constructed:
  "output_line e (log_New wp R (level_flags T)) msg =
     R
     @ itoa (year (now e)) 4 @ ''/'' @ itoa (month (now e)) 2 @ ''/'' @ itoa (day (now e)) 2 @ '' ''
     @ itoa (hour (now e)) 2 @ '':'' @ itoa (minute (now e)) 2 @ '':'' @ itoa (second (now e)) 2 @ '' ''
     @ (if T = LogDebug then position_text e else [])
     @ msg @ (if msg \<noteq> [] \<and> last msg = newline then [] else [newline])"
  by (simp add: output_line_def formatHeader_def log_New_def level_flags_def flag_defs
                position_text_def date_text_def clock_text_def level_defs Let_def)

text \<open>
  Claim C4, as amended. A line emitted by a ready logger is the prefix between brackets
  and a space, the date as year/month/day, the clock as hour:minute:second, then, when the
  threshold is DEBUG, the file and line of the caller, then the message, and a newline
  unless the message ends with one.
\<close>

theorem emitted_line_format:
  assumes "ready w l" and "S \<le> threshold w l"
  shows "destination (snd (Printf e w l msg S)) l =
           destination w l
           @ ''['' @ stored_prefix w l @ ''] ''
           @ itoa (year (now e)) 4 @ ''/'' @ itoa (month (now e)) 2 @ ''/''
           @ itoa (day (now e)) 2 @ '' ''
           @ itoa (hour (now e)) 2 @ '':'' @ itoa (minute (now e)) 2 @ '':''
           @ itoa (second (now e)) 2 @ '' ''
           @ (if threshold w l = LogDebug then position_text e else [])
           @ msg @ (if msg \<noteq> [] \<and> last msg = newline then [] else [newline])"
proof -
  from assms(1) obtain L where L: "deref (loggers w) l = Some L" "constructed L"
    by (auto simp: ready_def split: option.splits)
  have "logged_line e w l msg =
        output_line e (log_New (writer L) (''['' @ prefix L @ ''] '') (level_flags (logLevel L))) msg"
    using L by (simp add: logged_line_def constructed_def)
  then show ?thesis
    using Printf_ready_effect(2) [OF assms, of e msg] L
    by (simp add: output_line_constructed stored_prefix_def threshold_def)
qed

theorem emitted_line_format_witness:
  "ready world2 logger2 \<and> LogInfo \<le> threshold world2 logger2 \<and>
   destination (snd (Printf env0 world2 logger2 ''logging things'' LogInfo)) logger2 =
     ''[test] 2009/01/23 01:23:23 main.go:42: logging things'' @ [newline]"
proof -
  have h: "LogInfo \<le> threshold world2 logger2"
    by (simp add: eval_world2 level_defs syslog_defs)
  show ?thesis
    using h emitted_line_format [OF ready_world2 h, of env0 "''logging things''"]
    by (simp add: ready_world2 eval_world2 eval_env0 newline_def)
qed

text \<open>
  Claim C4 as it is stated fails: the line of a logger at INFO starts with the year, not
  the month, and the line of a logger at DEBUG has the caller's position before the
  message; the claimed text is not even the beginning of either.
\<close>

theorem claimed_line_counterexample:
  "destination (snd (Printf env0 world1 logger1 ''logging things'' LogInfo)) logger1 =
     ''[test] 2009/01/23 01:23:23 logging things'' @ [newline] \<and>
   destination (snd (Printf env0 world2 logger2 ''logging things'' LogInfo)) logger2 =
     ''[test] 2009/01/23 01:23:23 main.go:42: logging things'' @ [newline] \<and>
   claimed_line ''test'' (now env0) ''logging things'' =
     ''[test] 01/23/2009 01:23:23 logging things'' \<and>
   take (length (claimed_line ''test'' (now env0) ''logging things''))
     (destination (snd (Printf env0 world1 logger1 ''logging things'' LogInfo)) logger1)
   \<noteq> claimed_line ''test'' (now env0) ''logging things'' \<and>
   take (length (claimed_line ''test'' (now env0) ''logging things''))
     (destination (snd (Printf env0 world2 logger2 ''logging things'' LogInfo)) logger2)
   \<noteq> claimed_line ''test'' (now env0) ''logging things''"
proof -
  have d1: "destination (snd (Printf env0 world1 logger1 ''logging things'' LogInfo)) logger1 =
            ''[test] 2009/01/23 01:23:23 logging things'' @ [newline]"
    by code_simp
  have d2: "destination (snd (Printf env0 world2 logger2 ''logging things'' LogInfo)) logger2 =
            ''[test] 2009/01/23 01:23:23 main.go:42: logging things'' @ [newline]"
    by code_simp
  have c: "claimed_line ''test'' (now env0) ''logging things'' =
           ''[test] 01/23/2009 01:23:23 logging things''"
    by code_simp
  show ?thesis
    unfolding d1 d2 c by simp
qed

subsection \<open>Flushing\<close>

text \<open>
  Claim C8. On a ready logger a call of \<^verbatim>\<open>Printf\<close> that passes the threshold leaves the
  writer's buffer empty and its line in the destination, and the logger ready; so a second
  message finds nothing of the first in the buffer and is appended right after it.
\<close>

theorem Printf_flushes_each_message:
  assumes "ready w l" and "S \<le> threshold w l" and "S' \<le> threshold w l"
  shows "buffered (snd (Printf e w l msg S)) l = [] \<and>
         destination (snd (Printf e w l msg S)) l = destination w l @ logged_line e w l msg \<and>
         ready (snd (Printf e w l msg S)) l \<and>
         buffered (snd (Printf e' (snd (Printf e w l msg S)) l msg' S')) l = [] \<and>
         destination (snd (Printf e' (snd (Printf e w l msg S)) l msg' S')) l =
           destination w l @ logged_line e w l msg @ logged_line e' w l msg'"
proof -
  let ?w = "snd (Printf e w l msg S)"
  have r: "ready ?w l"
    by (rule Printf_ready_effect(5) [OF assms(1)])
  have same: "loggers ?w = loggers w"
    by (rule Printf_ready_loggers [OF assms(1)])
  have t: "S' \<le> threshold ?w l"
    using assms(3) same by (simp add: threshold_def)
  have ll: "logged_line e' ?w l msg' = logged_line e' w l msg'"
    using same by (simp add: logged_line_def)
  show ?thesis
    using Printf_ready_effect(2,3) [OF assms(1,2), of e msg]
          Printf_ready_effect(2,3) [OF r t, of e' msg'] r ll
    by simp
qed

theorem Printf_flushes_each_message_witness:
  "ready world1 logger1 \<and> LogInfo \<le> threshold world1 logger1 \<and>
   LogErr \<le> threshold world1 logger1 \<and>
   buffered (snd (Printf env0 world1 logger1 ''one'' LogInfo)) logger1 = [] \<and>
   destination (snd (Printf env0 world1 logger1 ''one'' LogInfo)) logger1 =
     ''[test] 2009/01/23 01:23:23 one'' @ [newline] \<and>
   buffered (snd (Printf env0 (snd (Printf env0 world1 logger1 ''one'' LogInfo)) logger1
                    ''two'' LogErr)) logger1 = [] \<and>
   destination (snd (Printf env0 (snd (Printf env0 world1 logger1 ''one'' LogInfo)) logger1
                       ''two'' LogErr)) logger1 =
     ''[test] 2009/01/23 01:23:23 one'' @ [newline] @ ''[test] 2009/01/23 01:23:23 two'' @ [newline]"
proof -
  have h1: "LogInfo \<le> threshold world1 logger1"
    by (simp add: threshold_world1)
  have h2: "LogErr \<le> threshold world1 logger1"
    by (simp add: threshold_world1 level_defs syslog_defs)
  show ?thesis
    using h1 h2 Printf_flushes_each_message [OF ready_world1 h1 h2, of env0 "''one''" env0 "''two''"]
    by (simp add: ready_world1 destination_world1 logged_line_world1_again)
qed

text \<open>
  A destination that rejects the write is outside this: Printf returns as if nothing had
  happened, the line stays in the buffer and the writer keeps the error.
\<close>

lemma Printf_on_nil_destination:
  "fst (Printf env0 worldN loggerN ''logging things'' LogInfo) = Returns"
  "files (snd (Printf env0 worldN loggerN ''logging things'' LogInfo)) = files worldN"
  "buffered (snd (Printf env0 worldN loggerN ''logging things'' LogInfo)) loggerN =
     ''[test] 2009/01/23 01:23:23 logging things'' @ [newline]"
  "map err (writers (snd (Printf env0 worldN loggerN ''logging things'' LogInfo))) =
     [Some ErrInvalid]"
  by code_simp+

subsection \<open>Uninitialized loggers\<close>

text \<open>
  Claim C9. \<^verbatim>\<open>Printf\<close> on a logger whose \<^verbatim>\<open>initialized\<close> flag is false leaves the struct at
  the receiver's address as it was, with every field and the flag still false, after
  \<^verbatim>\<open>ensureInitialized\<close> and after the whole call, however the call ends.
\<close>

theorem Printf_leaves_uninitialized_logger:
  assumes "deref (loggers w) l = Some L" and "\<not> initialized L"
  shows "deref (loggers (snd (ensureInitialized w l))) l = Some L \<and>
         deref (loggers (snd (Printf e w l msg S))) l = Some L"
proof -
  obtain w1 where w1: "ensureInitialized w l = (Returns, w1)"
    using deref_ensureInitialized [OF assms(1)] by (cases "ensureInitialized w l") simp
  have d1: "deref (loggers w1) l = Some L"
    using deref_ensureInitialized [OF assms(1)] w1 by simp
  have "loggers (snd (Printf e w l msg S)) = loggers w1"
  proof (cases "S \<le> logLevel L")
    case False
    then show ?thesis using w1 d1 by (simp add: Printf_def)
  next
    case True
    obtain oc w2 where o: "log_Output e w1 (logger L) msg = (oc, w2)"
      by (cases "log_Output e w1 (logger L) msg")
    have l2: "loggers w2 = loggers w1"
      using loggers_log_Output [of e w1 "logger L" msg] o by simp
    show ?thesis
      using True w1 d1 o l2 loggers_Writer_Flush [of w2 "writer L"]
      by (cases oc) (simp_all add: Printf_def)
  qed
  then show ?thesis using d1 w1 by simp
qed

theorem Printf_leaves_uninitialized_logger_witness:
  "deref (loggers worldZ) (Some 0) = Some zeroLogger \<and> \<not> initialized zeroLogger \<and>
   deref (loggers (snd (ensureInitialized worldZ (Some 0)))) (Some 0) = Some zeroLogger \<and>
   deref (loggers (snd (Printf env0 worldZ (Some 0) ''lost'' LogEmerg))) (Some 0) = Some zeroLogger"
proof -
  have h1: "deref (loggers worldZ) (Some 0) = Some zeroLogger"
    by (simp add: worldZ_def deref_def)
  have h2: "\<not> initialized zeroLogger"
    by (simp add: zeroLogger_def)
  show ?thesis
    using h1 h2 Printf_leaves_uninitialized_logger [OF h1 h2, of env0 "''lost''" LogEmerg]
    by simp
qed

text \<open>
  On the zero value the call does not return: at a severity that passes the zero
  threshold \<^verbatim>\<open>Output\<close> is called on a \<^verbatim>\<open>nil\<close> \<^verbatim>\<open>*log.Logger\<close>, and nothing is written.
\<close>

lemma Printf_zero_logger_panics:
  "fst (Printf env0 worldZ (Some 0) ''lost'' LogEmerg) = Panics"
  "files (snd (Printf env0 worldZ (Some 0) ''lost'' LogEmerg)) = files worldZ"
  by code_simp+

subsection \<open>Subloggers\<close>

lemma NewSubLogger_result:
  assumes "deref (loggers w) l = Some L"
  shows "\<exists>w' S. NewSubLogger w l C = (Returns, Some (length (loggers w)), w') \<and>
           deref (loggers w') (Some (length (loggers w))) = Some S \<and>
           logLevel S = logLevel L \<and> destStream S = destStream L \<and>
           prefix S = prefix L @ '']['' @ C \<and> constructed S \<and>
           deref (writers w') (writer S) = Some (NewWriter (destStream L)) \<and>
           files w' = files w"
proof -
  from assms obtain i where i: "l = Some i" "i < length (loggers w)" "loggers w ! i = L"
    by (auto simp: deref_Some_iff)
  show ?thesis
    using i
    by (simp add: NewSubLogger_def NewLogger_result deref_def constructed_def nth_append)
qed

text \<open>
  Claim C5. The logger that \<^verbatim>\<open>NewSubLogger\<close> returns has the threshold of its parent and
  the destination stream of its parent, and its writer sits on that stream.
\<close>

theorem NewSubLogger_inherits:
  assumes "deref (loggers w) l = Some L"
  shows "\<exists>sub w' S b. NewSubLogger w l C = (Returns, sub, w') \<and>
           deref (loggers w') sub = Some S \<and>
           logLevel S = logLevel L \<and> destStream S = destStream L \<and>
           deref (writers w') (writer S) = Some b \<and> wr b = destStream L"
  using NewSubLogger_result [OF assms, of C] by (auto simp: NewWriter_def)

theorem NewSubLogger_inherits_witness:
  "deref (loggers worldT) loggerT = Some (loggers worldT ! 0) \<and>
   (\<exists>sub w' S b. NewSubLogger worldT loggerT ''test2'' = (Returns, sub, w') \<and>
      deref (loggers w') sub = Some S \<and> logLevel S = LogInfo \<and> destStream S = Some 0 \<and>
      deref (writers w') (writer S) = Some b \<and> wr b = Some 0)"
  using NewSubLogger_inherits [OF deref_worldT, of "''test2''"]
  by (simp add: deref_worldT eval_worldT)

lemma bracketed_append: "bracketed (p @ '']['' @ c) = bracketed p @ bracketed c"
  by (simp add: bracketed_def)

lemma bracketed_foldl:
  "bracketed (foldl (\<lambda>a c. a @ '']['' @ c) p cs) = concat (map bracketed (p # cs))"
proof (induction cs arbitrary: p)
  case Nil
  show ?case by simp
next
  case (Cons c cs)
  have "bracketed (foldl (\<lambda>a c. a @ '']['' @ c) (p @ '']['' @ c) cs) =
        concat (map bracketed ((p @ '']['' @ c) # cs))"
    by (rule Cons.IH)
  also have "\<dots> = bracketed p @ bracketed c @ concat (map bracketed cs)"
    by (simp only: list.map concat.simps bracketed_append append_assoc)
  finally show ?case by simp
qed

lemma NewSubLoggers_result:
  assumes "deref (loggers w) l = Some L" and "constructed L"
  shows "\<exists>s w' S. NewSubLoggers w l cs = (Returns, s, w') \<and>
           deref (loggers w') s = Some S \<and> constructed S \<and>
           prefix S = foldl (\<lambda>a c. a @ '']['' @ c) (prefix L) cs"
  using assms
proof (induction cs arbitrary: w l L)
  case Nil
  then show ?case by simp
next
  case (Cons c cs)
  from NewSubLogger_result [OF Cons.prems(1), of c]
  obtain w' S where s: "NewSubLogger w l c = (Returns, Some (length (loggers w)), w')"
      "deref (loggers w') (Some (length (loggers w))) = Some S"
      "prefix S = prefix L @ '']['' @ c" "constructed S"
    by blast
  from Cons.IH [OF s(2) s(4)] s(1,3) show ?case
    by simp
qed

text \<open>
  Claim C2. \<^verbatim>\<open>NewSubLogger(C)\<close> on a parent with prefix \<open>P\<close> returns a logger that stores
  \<open>P @ '']['' @ C\<close> and renders it between brackets; a chain of subloggers \<open>Cs\<close> under a
  root \<open>P\<close> renders \<^verbatim>\<open>[P][C1]...[Cn]\<close> followed by a space.
\<close>

theorem NewSubLogger_prefix:
  assumes "deref (loggers w) l = Some L"
  shows "(\<exists>sub w' S g. NewSubLogger w l C = (Returns, sub, w') \<and>
            deref (loggers w') sub = Some S \<and> prefix S = prefix L @ '']['' @ C \<and>
            logger S = Some g \<and> lprefix g = ''['' @ prefix L @ '']['' @ C @ ''] '') \<and>
         (\<exists>s w' S g. NewSubLoggers (snd (NewLogger v T P dest)) (fst (NewLogger v T P dest)) Cs
                        = (Returns, s, w') \<and>
            deref (loggers w') s = Some S \<and> logger S = Some g \<and>
            lprefix g = concat (map bracketed (P # Cs)) @ '' '')"
proof -
  have one: "\<exists>sub w' S g. NewSubLogger w l C = (Returns, sub, w') \<and>
            deref (loggers w') sub = Some S \<and> prefix S = prefix L @ '']['' @ C \<and>
            logger S = Some g \<and> lprefix g = ''['' @ prefix L @ '']['' @ C @ ''] ''"
    using NewSubLogger_result [OF assms, of C]
    by (auto simp: constructed_def log_New_def)
  let ?R = "\<lparr>logLevel = T,
            logger = Some (log_New (Some (length (writers v))) (''['' @ P @ ''] '') (level_flags T)),
            writer = Some (length (writers v)), destStream = dest, prefix = P,
            subloggers = [], initialized = True\<rparr>"
  have root: "deref (loggers (snd (NewLogger v T P dest))) (fst (NewLogger v T P dest)) = Some ?R"
    by (simp add: NewLogger_result deref_def)
  have croot: "constructed ?R"
    by (simp add: constructed_def)
  from NewSubLoggers_result [OF root croot, of Cs]
  obtain s w' S where n:
      "NewSubLoggers (snd (NewLogger v T P dest)) (fst (NewLogger v T P dest)) Cs = (Returns, s, w')"
      "deref (loggers w') s = Some S" "constructed S"
      "prefix S = foldl (\<lambda>a c. a @ '']['' @ c) P Cs"
    by auto
  have "lprefix (log_New (writer S) (''['' @ prefix S @ ''] '') (level_flags (logLevel S))) =
        concat (map bracketed (P # Cs)) @ '' ''"
    using bracketed_foldl [of P Cs] n(4) by (simp add: log_New_def bracketed_def)
  then have many: "\<exists>s w' S g. NewSubLoggers (snd (NewLogger v T P dest)) (fst (NewLogger v T P dest)) Cs
                        = (Returns, s, w') \<and>
            deref (loggers w') s = Some S \<and> logger S = Some g \<and>
            lprefix g = concat (map bracketed (P # Cs)) @ '' ''"
    using n by (auto simp: constructed_def)
  show ?thesis using one many by blast
qed

theorem NewSubLogger_prefix_witness:
  "deref (loggers worldT) loggerT = Some (loggers worldT ! 0) \<and>
   (\<exists>sub w' S g. NewSubLogger worldT loggerT ''test2'' = (Returns, sub, w') \<and>
      deref (loggers w') sub = Some S \<and> prefix S = ''test1][test2'' \<and>
      logger S = Some g \<and> lprefix g = ''[test1][test2] '') \<and>
   (\<exists>s w' S g. NewSubLoggers worldT loggerT [''test2'', ''test3''] = (Returns, s, w') \<and>
      deref (loggers w') s = Some S \<and> logger S = Some g \<and>
      lprefix g = ''[test1][test2][test3] '')"
  using NewSubLogger_prefix [OF deref_worldT, where C = "''test2''" and v = world0 and T = LogInfo
                               and P = "''test1''" and dest = "Some 0"
                               and Cs = "[''test2'', ''test3'']"]
  by (simp add: deref_worldT eval_worldT bracketed_def worldT_def [symmetric]
                loggerT_def [symmetric])

subsection \<open>The two copies\<close>

lemma ParseLogLevel_copies_agree: "ParseLogLevel_v0 uni s = ParseLogLevel uni s"
  by (simp add: ParseLogLevel_v0_def ParseLogLevel_def)

lemma helpers_copies_agree:
  "Debugf_v0 e w l msg = Debugf e w l msg" "Infof_v0 e w l msg = Infof e w l msg"
  "Warningf_v0 e w l msg = Warningf e w l msg" "Errorf_v0 e w l msg = Errorf e w l msg"
  by (simp_all add: Debugf_v0_def Debugf_def Infof_v0_def Infof_def Warningf_v0_def Warningf_def
                    Errorf_v0_def Errorf_def level_defs)

text \<open>
  Claim C10. The copies do not agree on \<^verbatim>\<open>Fatalf\<close>: on a logger with threshold CRIT the
  copy in \<^verbatim>\<open>picolog.go\<close>, which passes \<^verbatim>\<open>LOG_CRIT\<close>, writes the line, and the copy in
  \<^verbatim>\<open>part_000\<close>, which passes \<^verbatim>\<open>LogErr\<close>, writes nothing.
\<close>

theorem Fatalf_copies_differ:
  "destination (snd (Fatalf_v0 env0 worldC loggerC ''fatal'')) loggerC =
     ''[test] 2009/01/23 01:23:23 fatal'' @ [newline] \<and>
   destination (snd (Fatalf env0 worldC loggerC ''fatal'')) loggerC = []"
  by code_simp

end
